theory Spec2Isabelle
  imports Main "HOL-Library.Word"
begin

unbundle bit_operations_syntax

section \<open>Package minitrue: the coalescing helper\<close>

text \<open>
  \<^verbatim>\<open>func Cond[T any](val bool, a, b T) T { if val { return a }; return b }\<close>

  Both branches are values already evaluated by the caller, so the function is a plain
  conditional.
\<close>

definition Cond :: "bool \<Rightarrow> 'a \<Rightarrow> 'a \<Rightarrow> 'a" where
  "Cond val a b = (if val then a else b)"

text \<open>
  \<^verbatim>\<open>func First[T comparable](a, b T) T { return Cond(a != *new(T), a, b) }\<close>

  The function is generic in a comparable type, and both the comparison \<^verbatim>\<open>!=\<close> and the
  zero value \<^verbatim>\<open>*new(T)\<close> are those of the type it is instantiated at. They are the
  first two arguments of the model. Go's \<^verbatim>\<open>!=\<close> is not inequality of values at every
  type: at a floating-point type it holds between a NaN and itself and fails between the
  two zeros.
\<close>

definition First :: "('a \<Rightarrow> 'a \<Rightarrow> bool) \<Rightarrow> 'a \<Rightarrow> 'a \<Rightarrow> 'a \<Rightarrow> 'a" where
  "First ne zero a b = Cond (ne a zero) a b"

text \<open>
  The comparison \<^verbatim>\<open>!=\<close> of the types at which two values are equal exactly when they
  are the same value: integers, strings, booleans, pointers.
\<close>

definition identity_ne :: "'a \<Rightarrow> 'a \<Rightarrow> bool" where
  "identity_ne x y = (x \<noteq> y)"

text \<open>
  The comparison \<^verbatim>\<open>!=\<close> of \<^verbatim>\<open>float64\<close>, which Go defines by IEEE 754, on the 64 bits of
  a value (sign, 11 bits of exponent, 52 bits of fraction): a NaN (exponent all ones,
  fraction not zero) differs from every value and from itself, the two zeros (all bits
  but the sign are zero) are equal, and any other two values are equal when their bits
  are. The zero value of \<^verbatim>\<open>float64\<close> is the positive zero, all bits zero.
\<close>

type_synonym float64 = "64 word"

definition isNaN :: "float64 \<Rightarrow> bool" where
  "isNaN x =
     (x AND 0x7FF0000000000000 = 0x7FF0000000000000 \<and> x AND 0x000FFFFFFFFFFFFF \<noteq> 0)"

definition isZero :: "float64 \<Rightarrow> bool" where
  "isZero x = (x AND 0x7FFFFFFFFFFFFFFF = 0)"

definition float64_ne :: "float64 \<Rightarrow> float64 \<Rightarrow> bool" where
  "float64_ne x y = (isNaN x \<or> isNaN y \<or> (x \<noteq> y \<and> (isZero x \<and> isZero y) = False))"

section \<open>Package requests: the values a Builder holds\<close>

text \<open>
  Values that the builder only stores and hands on (interface values, readers, writer
  callbacks, check functions, destination pointers and maps) are identified by a handle.
\<close>

type_synonym handle = nat

text \<open>
  Modelled from the spec: the package-level constructors \<^verbatim>\<open>BodyReader\<close>,
  \<^verbatim>\<open>BodyWriter\<close>, \<^verbatim>\<open>BodyBytes\<close>, \<^verbatim>\<open>BodyJSON\<close>, \<^verbatim>\<open>BodyForm\<close> and \<^verbatim>\<open>BodyFile\<close> are
  called by builder_extras.go and defined elsewhere. The spec lists the body producer's
  variants (readable stream, write-callback stream, fixed byte buffer, JSON-encoded
  value, URL-encoded form, file-backed stream) and asks for a closed set of tagged
  variants; production happens at execution time, so a producer is the record of what
  was attached.
\<close>

datatype BodyGetter =
    BodyReader handle
  | BodyWriter handle
  | BodyBytes string
  | BodyJSON handle
  | BodyForm "(string \<times> string list) list"
  | BodyFile string

text \<open>
  Modelled from the spec: the validator constructors \<^verbatim>\<open>CheckStatus\<close>,
  \<^verbatim>\<open>CheckContentType\<close> and \<^verbatim>\<open>CheckPeek\<close> are defined elsewhere; the spec names a
  status validator over a set of codes, a content-type validator over a set of media
  types and a peek validator over a byte count and a check function.
\<close>

datatype ResponseValidator =
    CheckStatus "int list"
  | CheckContentType "string list"
  | CheckPeek int handle

text \<open>
  Modelled from the spec: the handler constructors \<^verbatim>\<open>ToJSON\<close>, \<^verbatim>\<open>ToString\<close>,
  \<^verbatim>\<open>ToBytesBuffer\<close>, \<^verbatim>\<open>ToWriter\<close>, \<^verbatim>\<open>ToFile\<close>, \<^verbatim>\<open>ToHeaders\<close>, the body-draining
  handler \<^verbatim>\<open>consumeBody\<close> and the combinator \<^verbatim>\<open>ChainHandlers\<close> are defined elsewhere.
  The spec names them: JSON decode, string capture, buffer capture, writer copy, file
  write, header capture (copies the response headers into the caller's mapping), the
  drain stage (unconditionally discards the body) and the composition of stages, whose
  first stage is the outermost.
\<close>

datatype ResponseHandler =
    ToJSON handle
  | ToString handle
  | ToBytesBuffer handle
  | ToWriter handle
  | ToFile string
  | ToHeaders handle
  | consumeBody
  | ChainHandlers "ResponseHandler list"

text \<open>
  Modelled from the spec: the struct \<^verbatim>\<open>Builder\<close> is declared elsewhere. The spec's data
  model gives its fields: method, host and path are strings; params is an ordered
  multi-map of query key to value; headers is a multi-map of header name to value; body
  is one body producer or none; validators and handlers are ordered sequences.
\<close>

record Builder =
  "method" :: string
  host :: string
  path :: string
  params :: "(string \<times> string) list"
  headers :: "(string \<times> string) list"
  body :: "BodyGetter option"
  validators :: "ResponseValidator list"
  handlers :: "ResponseHandler list"

text \<open>The composite literal \<^verbatim>\<open>Builder{}\<close>: every field has its zero value.\<close>

definition Builder_zero :: Builder where
  "Builder_zero = \<lparr>method = [], host = [], path = [], params = [], headers = [],
     body = None, validators = [], handlers = []\<rparr>"

section \<open>The store of descriptors\<close>

text \<open>
  A \<^verbatim>\<open>*Builder\<close> is an address into a store of descriptors: two copies of a pointer
  are the same address and see the same cell. The store is the list of the descriptors
  allocated so far and an address is an index into it. An address outside the store
  stands for \<^verbatim>\<open>nil\<close>: a field access through it panics, which is the result \<open>None\<close>.
  A method that returns \<^verbatim>\<open>*Builder\<close> returns an address and the store it leaves.
\<close>

type_synonym addr = nat
type_synonym store = "Builder list"
type_synonym outcome = "(addr \<times> store) option"

text \<open>
  A chained call \<^verbatim>\<open>x.F(...)\<close>, where \<open>x\<close> is the outcome of the call before: it is made
  on the address the earlier call returned, in the store the earlier call left, and it
  is not made when the earlier call panicked.
\<close>

definition then_call :: "outcome \<Rightarrow> (addr \<Rightarrow> store \<Rightarrow> outcome) \<Rightarrow> outcome" where
  "then_call r f = (case r of None \<Rightarrow> None | Some (rb, s) \<Rightarrow> f rb s)"

text \<open>
  The expression \<^verbatim>\<open>&Builder{}\<close>: a fresh cell holding the zero value, at an address
  that no earlier pointer has.
\<close>

definition new_Builder :: "store \<Rightarrow> addr \<times> store" where
  "new_Builder s = (length s, s @ [Builder_zero])"

section \<open>The primitive setters\<close>

text \<open>
  Modelled from the spec: the primitive setters \<^verbatim>\<open>Method\<close>, \<^verbatim>\<open>Host\<close>, \<^verbatim>\<open>Path\<close>,
  \<^verbatim>\<open>Param\<close>, \<^verbatim>\<open>Header\<close>, \<^verbatim>\<open>Body\<close>, \<^verbatim>\<open>AddValidator\<close>, \<^verbatim>\<open>Handle\<close> and \<^verbatim>\<open>Config\<close> are
  methods of \<^verbatim>\<open>*Builder\<close> defined elsewhere. The spec says of every one of them that it
  mutates the descriptor in place, allocates no new descriptor and returns the same
  descriptor reference. \<open>mutate f\<close> is that common shape: it writes \<open>f\<close> of the cell's
  content back into the receiver's cell and returns the receiver.
\<close>

definition mutate :: "(Builder \<Rightarrow> Builder) \<Rightarrow> addr \<Rightarrow> store \<Rightarrow> outcome" where
  "mutate f rb s = (if rb < length s then Some (rb, s[rb := f (s ! rb)]) else None)"

text \<open>
  Modelled from the spec: \<^verbatim>\<open>Method\<close>, \<^verbatim>\<open>Host\<close> and \<^verbatim>\<open>Path\<close> are the primitive setters
  of the string fields method, host and path.
\<close>

definition Method :: "string \<Rightarrow> addr \<Rightarrow> store \<Rightarrow> outcome" where
  "Method m = mutate (\<lambda>b. b\<lparr>method := m\<rparr>)"

definition Host :: "string \<Rightarrow> addr \<Rightarrow> store \<Rightarrow> outcome" where
  "Host h = mutate (\<lambda>b. b\<lparr>host := h\<rparr>)"

definition Path :: "string \<Rightarrow> addr \<Rightarrow> store \<Rightarrow> outcome" where
  "Path p = mutate (\<lambda>b. b\<lparr>path := p\<rparr>)"

text \<open>
  Modelled from the spec: \<^verbatim>\<open>Param\<close> is the generic parameter setter. Params are an
  ordered multi-map whose insertion order matters, and appending a query parameter is
  not idempotent: the setter adds the pair at the end.
\<close>

definition Param :: "string \<Rightarrow> string \<Rightarrow> addr \<Rightarrow> store \<Rightarrow> outcome" where
  "Param key val = mutate (\<lambda>b. b\<lparr>params := params b @ [(key, val)]\<rparr>)"

text \<open>
  Modelled from the spec: header names are compared case-insensitively. \<open>toLower\<close> maps
  an ASCII capital to its small letter and \<open>EqualFold\<close> compares two names after it.
\<close>

definition toLower :: "char \<Rightarrow> char" where
  "toLower c =
     (if (65::nat) \<le> of_char c \<and> of_char c \<le> (90::nat) then char_of (of_char c + (32::nat)) else c)"

definition EqualFold :: "string \<Rightarrow> string \<Rightarrow> bool" where
  "EqualFold a b = (map toLower a = map toLower b)"

text \<open>
  Modelled from the spec: the recognized single-value headers are Content-Type and
  Authorization.
\<close>

definition single_value :: "string \<Rightarrow> bool" where
  "single_value key = (EqualFold key ''Content-Type'' \<or> EqualFold key ''Authorization'')"

text \<open>
  Modelled from the spec: \<^verbatim>\<open>Header\<close> is the generic header setter. The spec: headers
  are a multi-map of header name to values; later calls for the same case-insensitive
  name append, except for the recognized single-value headers (Content-Type,
  Authorization), which are overwritten. The convenience setters of builder_extras.go
  do nothing but call \<^verbatim>\<open>Header\<close>, so the overwriting happens here. The multi-map is the
  list of (name, value) pairs in insertion order.
\<close>

definition set_header :: "string \<Rightarrow> string \<Rightarrow> (string \<times> string) list \<Rightarrow> (string \<times> string) list" where
  "set_header key val hs =
     (if single_value key then filter (\<lambda>(k, v). \<not> EqualFold k key) hs else hs) @ [(key, val)]"

definition Header :: "string \<Rightarrow> string \<Rightarrow> addr \<Rightarrow> store \<Rightarrow> outcome" where
  "Header key val = mutate (\<lambda>b. b\<lparr>headers := set_header key val (headers b)\<rparr>)"

text \<open>
  The values in effect for a header name: those of the pairs whose name is the given one
  up to case, in insertion order.
\<close>

definition header_values :: "(string \<times> string) list \<Rightarrow> string \<Rightarrow> string list" where
  "header_values hs name = map snd (filter (\<lambda>(k, v). EqualFold k name) hs)"

text \<open>
  Modelled from the spec: \<^verbatim>\<open>Body\<close> sets the body producer; setting a body always
  replaces the prior one.
\<close>

definition Body :: "BodyGetter \<Rightarrow> addr \<Rightarrow> store \<Rightarrow> outcome" where
  "Body src = mutate (\<lambda>b. b\<lparr>body := Some src\<rparr>)"

text \<open>
  Modelled from the spec: \<^verbatim>\<open>AddValidator\<close> appends a validator and never replaces one.
\<close>

definition AddValidator :: "ResponseValidator \<Rightarrow> addr \<Rightarrow> store \<Rightarrow> outcome" where
  "AddValidator v = mutate (\<lambda>b. b\<lparr>validators := validators b @ [v]\<rparr>)"

text \<open>
  Modelled from the spec: \<^verbatim>\<open>Handle\<close> appends a handler to the ordered sequence of
  handlers.
\<close>

definition Handle :: "ResponseHandler \<Rightarrow> addr \<Rightarrow> store \<Rightarrow> outcome" where
  "Handle h = mutate (\<lambda>b. b\<lparr>handlers := handlers b @ [h]\<rparr>)"

text \<open>
  Modelled from the spec: a Configuration Function applies one incremental change to a
  descriptor it is given. It receives the descriptor's address and the store, and leaves
  a store (or panics); it returns nothing.
\<close>

type_synonym Config = "addr \<Rightarrow> store \<Rightarrow> store option"

text \<open>
  Modelled from the spec: \<^verbatim>\<open>Config\<close> applies a sequence of Configuration Functions in
  order, each receiving and mutating the same descriptor, and returns the descriptor.
\<close>

fun Config :: "Config list \<Rightarrow> addr \<Rightarrow> store \<Rightarrow> outcome" where
  "Config [] rb s = Some (rb, s)"
| "Config (cfg # cfgs) rb s = (case cfg rb s of None \<Rightarrow> None | Some s' \<Rightarrow> Config cfgs rb s')"

section \<open>Standard library functions the setters call\<close>

text \<open>The method names of net/http: \<^verbatim>\<open>http.MethodHead\<close> and its siblings.\<close>

definition MethodHead :: string where "MethodHead = ''HEAD''"
definition MethodPut :: string where "MethodPut = ''PUT''"
definition MethodPatch :: string where "MethodPatch = ''PATCH''"
definition MethodDelete :: string where "MethodDelete = ''DELETE''"

text \<open>
  \<^verbatim>\<open>strconv.Itoa\<close>: the decimal digits of the magnitude, most significant first, after a
  minus sign for a negative number. A Go \<^verbatim>\<open>int\<close> is an integer of the machine's width
  and the setter does no arithmetic on it, so the argument is an \<open>int\<close>.
\<close>

definition digits :: string where
  "digits = ''0123456789''"

function formatBits :: "nat \<Rightarrow> string" where
  "formatBits u = (if u < 10 then [digits ! u] else formatBits (u div 10) @ [digits ! (u mod 10)])"
  by pat_completeness auto
termination
  by (relation "measure id") auto

declare formatBits.simps [simp del]

definition Itoa :: "int \<Rightarrow> string" where
  "Itoa i = (if i < 0 then CHR ''-'' # formatBits (nat (- i)) else formatBits (nat i))"

text \<open>
  What a decimal string represents: the digits read most significant first, negated
  after a leading minus sign.
\<close>

definition digit_value :: "char \<Rightarrow> nat" where
  "digit_value c = of_char c - 48"

definition decimal_nat :: "string \<Rightarrow> nat" where
  "decimal_nat cs = foldl (\<lambda>n c. 10 * n + digit_value c) 0 cs"

definition decimal_value :: "string \<Rightarrow> int" where
  "decimal_value cs =
     (case cs of c # rest \<Rightarrow> if c = CHR ''-'' then - int (decimal_nat rest) else int (decimal_nat cs)
      | [] \<Rightarrow> 0)"

text \<open>
  \<^verbatim>\<open>base64.StdEncoding.EncodeToString\<close>: the standard alphabet of RFC 4648 with padding.
  Three source bytes make a 24-bit value whose four 6-bit groups index the alphabet; a
  last block of one or two bytes is filled with zero bits and padded with \<^verbatim>\<open>=\<close>. The
  conversion \<^verbatim>\<open>[]byte(auth)\<close> of a Go string yields its bytes, which a \<open>string\<close> here
  already is.
\<close>

definition encodeStd :: string where
  "encodeStd = ''ABCDEFGHIJKLMNOPQRSTUVWXYZabcdefghijklmnopqrstuvwxyz0123456789+/''"

definition encode :: "nat \<Rightarrow> char" where
  "encode v = encodeStd ! (v mod 64)"

definition byte :: "char \<Rightarrow> nat" where
  "byte c = of_char c"

fun EncodeToString :: "string \<Rightarrow> string" where
  "EncodeToString (a # b # c # src) =
     (let val = byte a * 65536 + byte b * 256 + byte c
      in [encode (val div 262144), encode (val div 4096), encode (val div 64), encode val]
         @ EncodeToString src)"
| "EncodeToString [a, b] =
     (let val = byte a * 65536 + byte b * 256
      in [encode (val div 262144), encode (val div 4096), encode (val div 64), CHR ''=''])"
| "EncodeToString [a] =
     (let val = byte a * 65536
      in [encode (val div 262144), encode (val div 4096), CHR ''='', CHR ''=''])"
| "EncodeToString [] = []"

section \<open>builder_extras.go: the derived setters\<close>

text \<open>\<^verbatim>\<open>func Configure(cfgs ...Config) *Builder { return (&Builder{}).Config(cfgs...) }\<close>\<close>

definition Configure :: "Config list \<Rightarrow> store \<Rightarrow> outcome" where
  "Configure cfgs s = (case new_Builder s of (rb, s') \<Rightarrow> Config cfgs rb s')"

text \<open>The verb shortcuts: \<^verbatim>\<open>return rb.Method(http.MethodHead)\<close> and its siblings.\<close>

definition Head :: "addr \<Rightarrow> store \<Rightarrow> outcome" where
  "Head rb s = Method MethodHead rb s"

definition Put :: "addr \<Rightarrow> store \<Rightarrow> outcome" where
  "Put rb s = Method MethodPut rb s"

definition Patch :: "addr \<Rightarrow> store \<Rightarrow> outcome" where
  "Patch rb s = Method MethodPatch rb s"

definition Delete :: "addr \<Rightarrow> store \<Rightarrow> outcome" where
  "Delete rb s = Method MethodDelete rb s"

text \<open>
  \<^verbatim>\<open>Hostf\<close> and \<^verbatim>\<open>Pathf\<close> call \<^verbatim>\<open>fmt.Sprintf(format, a...)\<close>. The formatter belongs to
  the standard library and is a parameter of the model: the setters are embedded for
  every formatting function.
\<close>

definition Hostf :: "(string \<Rightarrow> 'a list \<Rightarrow> string) \<Rightarrow> string \<Rightarrow> 'a list \<Rightarrow> addr \<Rightarrow> store \<Rightarrow> outcome" where
  "Hostf Sprintf format a rb s = Host (Sprintf format a) rb s"

definition Pathf :: "(string \<Rightarrow> 'a list \<Rightarrow> string) \<Rightarrow> string \<Rightarrow> 'a list \<Rightarrow> addr \<Rightarrow> store \<Rightarrow> outcome" where
  "Pathf Sprintf format a rb s = Path (Sprintf format a) rb s"

text \<open>\<^verbatim>\<open>return rb.Param(key, strconv.Itoa(value))\<close>\<close>

definition ParamInt :: "string \<Rightarrow> int \<Rightarrow> addr \<Rightarrow> store \<Rightarrow> outcome" where
  "ParamInt key val rb s = Param key (Itoa val) rb s"

text \<open>The header convenience setters.\<close>

definition Accept :: "string \<Rightarrow> addr \<Rightarrow> store \<Rightarrow> outcome" where
  "Accept contentTypes rb s = Header ''Accept'' contentTypes rb s"

definition CacheControl :: "string \<Rightarrow> addr \<Rightarrow> store \<Rightarrow> outcome" where
  "CacheControl directive rb s = Header ''Cache-Control'' directive rb s"

definition ContentType :: "string \<Rightarrow> addr \<Rightarrow> store \<Rightarrow> outcome" where
  "ContentType ct rb s = Header ''Content-Type'' ct rb s"

definition UserAgent :: "string \<Rightarrow> addr \<Rightarrow> store \<Rightarrow> outcome" where
  "UserAgent ua rb s = Header ''User-Agent'' ua rb s"

definition BasicAuth :: "string \<Rightarrow> string \<Rightarrow> addr \<Rightarrow> store \<Rightarrow> outcome" where
  "BasicAuth username password rb s =
     (let auth = username @ '':'' @ password;
          v = EncodeToString auth
      in Header ''Authorization'' (''Basic '' @ v) rb s)"

definition Bearer :: "string \<Rightarrow> addr \<Rightarrow> store \<Rightarrow> outcome" where
  "Bearer token rb s = Header ''Authorization'' (''Bearer '' @ token) rb s"

text \<open>
  The body setters. A method of \<^verbatim>\<open>*Builder\<close> that shares its name with a package-level
  constructor carries the receiver's type in its name here.
\<close>

definition Builder_BodyReader :: "handle \<Rightarrow> addr \<Rightarrow> store \<Rightarrow> outcome" where
  "Builder_BodyReader r rb s = Body (BodyReader r) rb s"

definition Builder_BodyWriter :: "handle \<Rightarrow> addr \<Rightarrow> store \<Rightarrow> outcome" where
  "Builder_BodyWriter f rb s = Body (BodyWriter f) rb s"

definition Builder_BodyBytes :: "string \<Rightarrow> addr \<Rightarrow> store \<Rightarrow> outcome" where
  "Builder_BodyBytes b rb s = Body (BodyBytes b) rb s"

definition Builder_BodyJSON :: "handle \<Rightarrow> addr \<Rightarrow> store \<Rightarrow> outcome" where
  "Builder_BodyJSON v rb s =
     then_call (Body (BodyJSON v) rb s) (ContentType ''application/json'')"

definition Builder_BodyForm :: "(string \<times> string list) list \<Rightarrow> addr \<Rightarrow> store \<Rightarrow> outcome" where
  "Builder_BodyForm data rb s =
     then_call (Body (BodyForm data) rb s) (ContentType ''application/x-www-form-urlencoded'')"

definition Builder_BodyFile :: "string \<Rightarrow> addr \<Rightarrow> store \<Rightarrow> outcome" where
  "Builder_BodyFile name rb s = Body (BodyFile name) rb s"

text \<open>The validator setters.\<close>

definition Builder_CheckStatus :: "int list \<Rightarrow> addr \<Rightarrow> store \<Rightarrow> outcome" where
  "Builder_CheckStatus acceptStatuses rb s = AddValidator (CheckStatus acceptStatuses) rb s"

definition Builder_CheckContentType :: "string list \<Rightarrow> addr \<Rightarrow> store \<Rightarrow> outcome" where
  "Builder_CheckContentType cts rb s = AddValidator (CheckContentType cts) rb s"

definition Builder_CheckPeek :: "int \<Rightarrow> handle \<Rightarrow> addr \<Rightarrow> store \<Rightarrow> outcome" where
  "Builder_CheckPeek n f rb s = AddValidator (CheckPeek n f) rb s"

text \<open>The handler setters.\<close>

definition Builder_ToJSON :: "handle \<Rightarrow> addr \<Rightarrow> store \<Rightarrow> outcome" where
  "Builder_ToJSON v rb s = Handle (ToJSON v) rb s"

definition Builder_ToString :: "handle \<Rightarrow> addr \<Rightarrow> store \<Rightarrow> outcome" where
  "Builder_ToString sp rb s = Handle (ToString sp) rb s"

definition Builder_ToBytesBuffer :: "handle \<Rightarrow> addr \<Rightarrow> store \<Rightarrow> outcome" where
  "Builder_ToBytesBuffer buf rb s = Handle (ToBytesBuffer buf) rb s"

definition Builder_ToWriter :: "handle \<Rightarrow> addr \<Rightarrow> store \<Rightarrow> outcome" where
  "Builder_ToWriter w rb s = Handle (ToWriter w) rb s"

definition Builder_ToFile :: "string \<Rightarrow> addr \<Rightarrow> store \<Rightarrow> outcome" where
  "Builder_ToFile name rb s = Handle (ToFile name) rb s"

text \<open>
  \<^verbatim>\<open>return rb.Head().Handle(ChainHandlers(ToHeaders(h), consumeBody))\<close>
\<close>

definition Builder_ToHeaders :: "handle \<Rightarrow> addr \<Rightarrow> store \<Rightarrow> outcome" where
  "Builder_ToHeaders h rb s =
     then_call (Head rb s) (Handle (ChainHandlers [ToHeaders h, consumeBody]))"

section \<open>Chains of setter calls\<close>

text \<open>
  A call of one of the derived setters of builder_extras.go, with its arguments. The type
  parameter is the type of the values given to the formatter.
\<close>

datatype 'a setter_call =
    Call_Head
  | Call_Put
  | Call_Patch
  | Call_Delete
  | Call_Hostf string "'a list"
  | Call_Pathf string "'a list"
  | Call_ParamInt string int
  | Call_Accept string
  | Call_CacheControl string
  | Call_ContentType string
  | Call_UserAgent string
  | Call_BasicAuth string string
  | Call_Bearer string
  | Call_BodyReader handle
  | Call_BodyWriter handle
  | Call_BodyBytes string
  | Call_BodyJSON handle
  | Call_BodyForm "(string \<times> string list) list"
  | Call_BodyFile string
  | Call_CheckStatus "int list"
  | Call_CheckContentType "string list"
  | Call_CheckPeek int handle
  | Call_ToJSON handle
  | Call_ToString handle
  | Call_ToBytesBuffer handle
  | Call_ToWriter handle
  | Call_ToFile string
  | Call_ToHeaders handle

text \<open>Making the call on a receiver: the method of the source that the call names.\<close>

fun invoke :: "(string \<Rightarrow> 'a list \<Rightarrow> string) \<Rightarrow> 'a setter_call \<Rightarrow> addr \<Rightarrow> store \<Rightarrow> outcome" where
  "invoke Sprintf Call_Head rb s = Head rb s"
| "invoke Sprintf Call_Put rb s = Put rb s"
| "invoke Sprintf Call_Patch rb s = Patch rb s"
| "invoke Sprintf Call_Delete rb s = Delete rb s"
| "invoke Sprintf (Call_Hostf format a) rb s = Hostf Sprintf format a rb s"
| "invoke Sprintf (Call_Pathf format a) rb s = Pathf Sprintf format a rb s"
| "invoke Sprintf (Call_ParamInt key val) rb s = ParamInt key val rb s"
| "invoke Sprintf (Call_Accept contentTypes) rb s = Accept contentTypes rb s"
| "invoke Sprintf (Call_CacheControl directive) rb s = CacheControl directive rb s"
| "invoke Sprintf (Call_ContentType ct) rb s = ContentType ct rb s"
| "invoke Sprintf (Call_UserAgent ua) rb s = UserAgent ua rb s"
| "invoke Sprintf (Call_BasicAuth username password) rb s = BasicAuth username password rb s"
| "invoke Sprintf (Call_Bearer token) rb s = Bearer token rb s"
| "invoke Sprintf (Call_BodyReader r) rb s = Builder_BodyReader r rb s"
| "invoke Sprintf (Call_BodyWriter f) rb s = Builder_BodyWriter f rb s"
| "invoke Sprintf (Call_BodyBytes b) rb s = Builder_BodyBytes b rb s"
| "invoke Sprintf (Call_BodyJSON v) rb s = Builder_BodyJSON v rb s"
| "invoke Sprintf (Call_BodyForm data) rb s = Builder_BodyForm data rb s"
| "invoke Sprintf (Call_BodyFile name) rb s = Builder_BodyFile name rb s"
| "invoke Sprintf (Call_CheckStatus acceptStatuses) rb s = Builder_CheckStatus acceptStatuses rb s"
| "invoke Sprintf (Call_CheckContentType cts) rb s = Builder_CheckContentType cts rb s"
| "invoke Sprintf (Call_CheckPeek n f) rb s = Builder_CheckPeek n f rb s"
| "invoke Sprintf (Call_ToJSON v) rb s = Builder_ToJSON v rb s"
| "invoke Sprintf (Call_ToString sp) rb s = Builder_ToString sp rb s"
| "invoke Sprintf (Call_ToBytesBuffer buf) rb s = Builder_ToBytesBuffer buf rb s"
| "invoke Sprintf (Call_ToWriter w) rb s = Builder_ToWriter w rb s"
| "invoke Sprintf (Call_ToFile name) rb s = Builder_ToFile name rb s"
| "invoke Sprintf (Call_ToHeaders h) rb s = Builder_ToHeaders h rb s"

text \<open>
  The chain \<^verbatim>\<open>rb.F1(...).F2(...)...Fn(...)\<close>: each call is made on what the call before
  returned.
\<close>

fun chain_calls :: "(string \<Rightarrow> 'a list \<Rightarrow> string) \<Rightarrow> 'a setter_call list \<Rightarrow> addr \<Rightarrow> store \<Rightarrow> outcome" where
  "chain_calls Sprintf [] rb s = Some (rb, s)"
| "chain_calls Sprintf (c # cs) rb s = then_call (invoke Sprintf c rb s) (chain_calls Sprintf cs)"

text \<open>
  The spec's side of the comparison. A single-field mutation changes one field of a
  descriptor value, in the way the spec's data model gives for that field: method, host,
  path and body are replaced, params, validators and handlers grow at the end, a header
  is set.
\<close>

datatype field_update =
    Set_method string
  | Set_host string
  | Set_path string
  | Append_param string string
  | Set_header string string
  | Set_body BodyGetter
  | Append_validator ResponseValidator
  | Append_handler ResponseHandler

fun apply_update :: "field_update \<Rightarrow> Builder \<Rightarrow> Builder" where
  "apply_update (Set_method m) b = b\<lparr>method := m\<rparr>"
| "apply_update (Set_host h) b = b\<lparr>host := h\<rparr>"
| "apply_update (Set_path p) b = b\<lparr>path := p\<rparr>"
| "apply_update (Append_param key val) b = b\<lparr>params := params b @ [(key, val)]\<rparr>"
| "apply_update (Set_header key val) b = b\<lparr>headers := set_header key val (headers b)\<rparr>"
| "apply_update (Set_body src) b = b\<lparr>body := Some src\<rparr>"
| "apply_update (Append_validator v) b = b\<lparr>validators := validators b @ [v]\<rparr>"
| "apply_update (Append_handler h) b = b\<lparr>handlers := handlers b @ [h]\<rparr>"

text \<open>
  The documented mutation of each derived setter, after the spec's description of it
  (verb shortcuts, formatted host and path, integer parameter, header convenience
  setters, body attachment, validators, handlers). The JSON and form body setters and
  the header capture are documented to change two fields, one after the other.
\<close>

fun documented :: "(string \<Rightarrow> 'a list \<Rightarrow> string) \<Rightarrow> 'a setter_call \<Rightarrow> field_update list" where
  "documented Sprintf Call_Head = [Set_method ''HEAD'']"
| "documented Sprintf Call_Put = [Set_method ''PUT'']"
| "documented Sprintf Call_Patch = [Set_method ''PATCH'']"
| "documented Sprintf Call_Delete = [Set_method ''DELETE'']"
| "documented Sprintf (Call_Hostf format a) = [Set_host (Sprintf format a)]"
| "documented Sprintf (Call_Pathf format a) = [Set_path (Sprintf format a)]"
| "documented Sprintf (Call_ParamInt key val) = [Append_param key (Itoa val)]"
| "documented Sprintf (Call_Accept v) = [Set_header ''Accept'' v]"
| "documented Sprintf (Call_CacheControl v) = [Set_header ''Cache-Control'' v]"
| "documented Sprintf (Call_ContentType v) = [Set_header ''Content-Type'' v]"
| "documented Sprintf (Call_UserAgent v) = [Set_header ''User-Agent'' v]"
| "documented Sprintf (Call_BasicAuth u p) =
     [Set_header ''Authorization'' (''Basic '' @ EncodeToString (u @ '':'' @ p))]"
| "documented Sprintf (Call_Bearer t) = [Set_header ''Authorization'' (''Bearer '' @ t)]"
| "documented Sprintf (Call_BodyReader r) = [Set_body (BodyReader r)]"
| "documented Sprintf (Call_BodyWriter f) = [Set_body (BodyWriter f)]"
| "documented Sprintf (Call_BodyBytes b) = [Set_body (BodyBytes b)]"
| "documented Sprintf (Call_BodyJSON v) =
     [Set_body (BodyJSON v), Set_header ''Content-Type'' ''application/json'']"
| "documented Sprintf (Call_BodyForm data) =
     [Set_body (BodyForm data), Set_header ''Content-Type'' ''application/x-www-form-urlencoded'']"
| "documented Sprintf (Call_BodyFile name) = [Set_body (BodyFile name)]"
| "documented Sprintf (Call_CheckStatus codes) = [Append_validator (CheckStatus codes)]"
| "documented Sprintf (Call_CheckContentType cts) = [Append_validator (CheckContentType cts)]"
| "documented Sprintf (Call_CheckPeek n f) = [Append_validator (CheckPeek n f)]"
| "documented Sprintf (Call_ToJSON v) = [Append_handler (ToJSON v)]"
| "documented Sprintf (Call_ToString sp) = [Append_handler (ToString sp)]"
| "documented Sprintf (Call_ToBytesBuffer buf) = [Append_handler (ToBytesBuffer buf)]"
| "documented Sprintf (Call_ToWriter w) = [Append_handler (ToWriter w)]"
| "documented Sprintf (Call_ToFile name) = [Append_handler (ToFile name)]"
| "documented Sprintf (Call_ToHeaders h) =
     [Set_method ''HEAD'', Append_handler (ChainHandlers [ToHeaders h, consumeBody])]"

text \<open>The field a single-field mutation writes, and agreement of two descriptors on
  every other field.\<close>

datatype field =
    Field_method | Field_host | Field_path | Field_params | Field_headers | Field_body
  | Field_validators | Field_handlers

fun field_of :: "field_update \<Rightarrow> field" where
  "field_of (Set_method m) = Field_method"
| "field_of (Set_host h) = Field_host"
| "field_of (Set_path p) = Field_path"
| "field_of (Append_param key val) = Field_params"
| "field_of (Set_header key val) = Field_headers"
| "field_of (Set_body src) = Field_body"
| "field_of (Append_validator v) = Field_validators"
| "field_of (Append_handler h) = Field_handlers"

definition agree_except :: "field \<Rightarrow> Builder \<Rightarrow> Builder \<Rightarrow> bool" where
  "agree_except f b b' =
     ((f = Field_method \<or> method b' = method b)
      \<and> (f = Field_host \<or> host b' = host b)
      \<and> (f = Field_path \<or> path b' = path b)
      \<and> (f = Field_params \<or> params b' = params b)
      \<and> (f = Field_headers \<or> headers b' = headers b)
      \<and> (f = Field_body \<or> body b' = body b)
      \<and> (f = Field_validators \<or> validators b' = validators b)
      \<and> (f = Field_handlers \<or> handlers b' = handlers b))"

text \<open>
  What a caller observes of a header after a chain of calls: the values in effect for
  the name in the descriptor the chain returned.
\<close>

definition header_in_effect :: "outcome \<Rightarrow> string \<Rightarrow> string list option" where
  "header_in_effect r name =
     (case r of None \<Rightarrow> None
      | Some (rb, s) \<Rightarrow> if rb < length s then Some (header_values (headers (s ! rb)) name) else None)"

text \<open>
  What a reference sees after a call: the descriptor in its cell of the store the call
  left. Two references see the same descriptor when they are the same address.
\<close>

definition deref :: "addr \<Rightarrow> outcome \<Rightarrow> Builder option" where
  "deref a r =
     (case r of None \<Rightarrow> None
      | Some (rb, s) \<Rightarrow> if a < length s then Some (s ! a) else None)"

text \<open>
  A canonical decimal numeral: an optional minus sign before a non-empty run of decimal
  digits that starts with a zero only when the numeral is \<^verbatim>\<open>0\<close>.
\<close>

definition canonical_decimal :: "string \<Rightarrow> bool" where
  "canonical_decimal cs =
     (let ds = (case cs of c # rest \<Rightarrow> if c = CHR ''-'' then rest else cs | [] \<Rightarrow> [])
      in ds \<noteq> [] \<and> set ds \<subseteq> set digits \<and> (if hd ds = CHR ''0'' then cs = ''0'' else True))"

text \<open>
  What a padded base64 text stands for, after RFC 4648: every character of the alphabet
  is worth its position in it, four characters are worth 24 bits, that is three bytes,
  and a last group that ends in one or two \<^verbatim>\<open>=\<close> is worth two bytes or one.
\<close>

fun position :: "'a list \<Rightarrow> 'a \<Rightarrow> nat" where
  "position [] x = 0"
| "position (y # ys) x = (if x = y then 0 else Suc (position ys x))"

definition sextet :: "char \<Rightarrow> nat" where
  "sextet c = position encodeStd c"

fun base64_bytes :: "string \<Rightarrow> string" where
  "base64_bytes (a # b # c # d # rest) =
     (if c = CHR ''='' then
        [char_of ((sextet a * 262144 + sextet b * 4096) div 65536)]
      else if d = CHR ''='' then
        (let val = sextet a * 262144 + sextet b * 4096 + sextet c * 64
         in [char_of (val div 65536), char_of (val div 256)])
      else
        (let val = sextet a * 262144 + sextet b * 4096 + sextet c * 64 + sextet d
         in [char_of (val div 65536), char_of (val div 256), char_of val] @ base64_bytes rest))"
| "base64_bytes cs = []"

section \<open>Lemmas\<close>

subsection \<open>The store\<close>

lemma mutate_in: "rb < length s \<Longrightarrow> mutate f rb s = Some (rb, s[rb := f (s ! rb)])"
  by (simp add: mutate_def)

lemma mutate_out: "\<not> rb < length s \<Longrightarrow> mutate f rb s = None"
  by (simp add: mutate_def)

lemma then_call_mutate: "then_call (mutate f rb s) (mutate g) = mutate (\<lambda>b. g (f b)) rb s"
  by (simp add: then_call_def mutate_def)

lemma then_call_None: "then_call None f = None"
  by (simp add: then_call_def)

lemma then_call_Some: "then_call (Some (rb, s)) f = f rb s"
  by (simp add: then_call_def)

subsection \<open>Header names\<close>

lemma EqualFold_refl: "EqualFold a a"
  by (simp add: EqualFold_def)

lemma EqualFold_sym: "EqualFold a b = EqualFold b a"
  by (auto simp: EqualFold_def)

lemma EqualFold_trans: "EqualFold a b \<Longrightarrow> EqualFold b c \<Longrightarrow> EqualFold a c"
  by (simp add: EqualFold_def)

lemma EqualFold_cong: "EqualFold a b \<Longrightarrow> EqualFold k a = EqualFold k b"
  by (auto simp: EqualFold_def)

lemma single_value_Content_Type: "single_value ''Content-Type''"
  by (simp add: single_value_def EqualFold_refl)

lemma single_value_Authorization: "single_value ''Authorization''"
  by (simp add: single_value_def EqualFold_refl)

lemma header_values_append:
  "header_values (hs @ hs') name = header_values hs name @ header_values hs' name"
  by (simp add: header_values_def)

lemma header_values_removed:
  "EqualFold key name \<Longrightarrow>
   header_values (filter (\<lambda>(k, v). \<not> EqualFold k key) hs) name = []"
  by (induction hs) (auto simp: header_values_def EqualFold_def)

lemma header_values_kept:
  "\<not> EqualFold key name \<Longrightarrow>
   header_values (filter (\<lambda>(k, v). \<not> EqualFold k key) hs) name = header_values hs name"
  by (induction hs) (auto simp: header_values_def EqualFold_def)

lemma set_header_overwrites:
  "single_value key \<Longrightarrow> EqualFold key name \<Longrightarrow>
   header_values (set_header key val hs) name = [val]"
  by (simp add: set_header_def header_values_append header_values_removed)
     (simp add: header_values_def)

lemma set_header_other:
  "\<not> EqualFold key name \<Longrightarrow> header_values (set_header key val hs) name = header_values hs name"
  by (simp add: set_header_def header_values_append header_values_kept)
     (simp add: header_values_def)

lemma set_header_appends:
  "\<not> single_value key \<Longrightarrow> EqualFold key name \<Longrightarrow>
   header_values (set_header key val hs) name = header_values hs name @ [val]"
  by (simp add: set_header_def header_values_def)

subsection \<open>Decimal numerals\<close>

lemma digit_cases: "d < (10::nat) \<Longrightarrow> d = 0 \<or> d = 1 \<or> d = 2 \<or> d = 3 \<or> d = 4 \<or> d = 5 \<or> d = 6 \<or> d = 7 \<or> d = 8 \<or> d = 9"
  by arith

lemma digit_value_digits: "d < 10 \<Longrightarrow> digit_value (digits ! d) = d"
  using digit_cases [of d] by (auto simp: digit_value_def digits_def)

lemma digits_nth_in: "d < 10 \<Longrightarrow> digits ! d \<in> set digits"
proof -
  assume "d < 10"
  then have "d < length digits" by (simp add: digits_def)
  then show ?thesis by (rule nth_mem)
qed

lemma digits_nth_zero: "d < 10 \<Longrightarrow> (digits ! d = CHR ''0'') = (d = 0)"
  using digit_cases [of d] by (auto simp: digits_def)

lemma digits_no_minus: "CHR ''-'' \<notin> set digits"
  by (simp add: digits_def)

lemma decimal_nat_snoc: "decimal_nat (cs @ [c]) = 10 * decimal_nat cs + digit_value c"
  by (simp add: decimal_nat_def)

lemma decimal_nat_formatBits: "decimal_nat (formatBits u) = u"
proof (induction u rule: formatBits.induct)
  case (1 u)
  show ?case
  proof (cases "u < 10")
    case True
    then show ?thesis
      by (subst formatBits.simps) (simp add: decimal_nat_def digit_value_digits)
  next
    case False
    with 1 show ?thesis
      by (subst formatBits.simps) (simp add: decimal_nat_snoc digit_value_digits)
  qed
qed

lemma formatBits_not_Nil: "formatBits u \<noteq> []"
  by (subst formatBits.simps) simp

lemma formatBits_digits: "set (formatBits u) \<subseteq> set digits"
proof (induction u rule: formatBits.induct)
  case (1 u)
  show ?case
  proof (cases "u < 10")
    case True
    then show ?thesis by (subst formatBits.simps) (simp add: digits_nth_in)
  next
    case False
    with 1 show ?thesis by (subst formatBits.simps) (simp add: digits_nth_in)
  qed
qed

lemma hd_formatBits: "(hd (formatBits u) = CHR ''0'') = (u = 0)"
proof (induction u rule: formatBits.induct)
  case (1 u)
  show ?case
  proof (cases "u < 10")
    case True
    then show ?thesis by (subst formatBits.simps) (simp add: digits_nth_zero)
  next
    case False
    then have "u div 10 \<noteq> 0" by simp
    with False 1 show ?thesis
      by (subst formatBits.simps) (simp add: hd_append formatBits_not_Nil)
  qed
qed

lemma formatBits_zero: "formatBits 0 = ''0''"
  by (subst formatBits.simps) (simp add: digits_def)

lemma hd_formatBits_no_minus: "hd (formatBits u) \<noteq> CHR ''-''"
  using formatBits_digits [of u] formatBits_not_Nil [of u] digits_no_minus
  by (cases "formatBits u") auto

lemma decimal_value_Itoa: "decimal_value (Itoa i) = i"
proof (cases "i < 0")
  case True
  then show ?thesis by (simp add: Itoa_def decimal_value_def decimal_nat_formatBits)
next
  case False
  obtain c cs where f: "formatBits (nat i) = c # cs"
    using formatBits_not_Nil [of "nat i"] by (cases "formatBits (nat i)") auto
  have "c \<noteq> CHR ''-''" using hd_formatBits_no_minus [of "nat i"] f by simp
  moreover have "decimal_nat (c # cs) = nat i" using decimal_nat_formatBits [of "nat i"] f by simp
  ultimately show ?thesis using False f by (simp add: Itoa_def decimal_value_def)
qed

lemma canonical_decimal_Itoa: "canonical_decimal (Itoa i)"
proof (cases "i < 0")
  case True
  then have "nat (- i) \<noteq> 0" by simp
  then have "hd (formatBits (nat (- i))) \<noteq> CHR ''0''" by (simp add: hd_formatBits)
  with True show ?thesis
    by (simp add: Itoa_def canonical_decimal_def formatBits_not_Nil formatBits_digits)
next
  case False
  obtain c cs where f: "formatBits (nat i) = c # cs"
    using formatBits_not_Nil [of "nat i"] by (cases "formatBits (nat i)") auto
  have m: "c \<noteq> CHR ''-''" using hd_formatBits_no_minus [of "nat i"] f by simp
  have d: "set (c # cs) \<subseteq> set digits" using formatBits_digits [of "nat i"] f by simp
  have z: "c = CHR ''0'' \<Longrightarrow> c # cs = ''0''"
    using hd_formatBits [of "nat i"] f formatBits_zero by auto
  show ?thesis using False f m d z
    by (auto simp: Itoa_def canonical_decimal_def)
qed

lemma EncodeToString_rfc4648:
  "EncodeToString '''' = ''''"
  "EncodeToString ''f'' = ''Zg==''"
  "EncodeToString ''fo'' = ''Zm8=''"
  "EncodeToString ''foo'' = ''Zm9v''"
  "EncodeToString ''foob'' = ''Zm9vYg==''"
  "EncodeToString ''fooba'' = ''Zm9vYmE=''"
  "EncodeToString ''foobar'' = ''Zm9vYmFy''"
  by (simp_all add: byte_def encode_def encodeStd_def)

lemma length_EncodeToString: "length (EncodeToString src) = 4 * ((length src + 2) div 3)"
proof (induction src rule: EncodeToString.induct)
  case (1 a b c src)
  have "(length (a # b # c # src) + 2) div 3 = Suc ((length src + 2) div 3)"
    by simp
  with 1 show ?case by (simp add: Let_def)
qed (simp_all add: Let_def)

lemma header_in_effect_mutate:
  "rb < length s \<Longrightarrow>
   header_in_effect (mutate f rb s) name = Some (header_values (headers (f (s ! rb))) name)"
  by (simp add: header_in_effect_def mutate_def)

lemma Config_append:
  "Config (cs @ ds) rb s = then_call (Config cs rb s) (Config ds)"
  by (induction cs arbitrary: s) (simp_all add: then_call_def split: option.splits)

lemma Config_returns_receiver: "Config cfgs rb s = Some (r, s') \<Longrightarrow> r = rb"
  by (induction cfgs arbitrary: s) (auto split: option.splits)

subsection \<open>Every derived setter is one in-place mutation\<close>

lemma verb_mutate:
  "Head = mutate (\<lambda>b. b\<lparr>method := ''HEAD''\<rparr>)"
  "Put = mutate (\<lambda>b. b\<lparr>method := ''PUT''\<rparr>)"
  "Patch = mutate (\<lambda>b. b\<lparr>method := ''PATCH''\<rparr>)"
  "Delete = mutate (\<lambda>b. b\<lparr>method := ''DELETE''\<rparr>)"
  by (intro ext, simp add: Head_def Put_def Patch_def Delete_def MethodHead_def MethodPut_def
      MethodPatch_def MethodDelete_def Method_def)+

lemma format_mutate:
  "Hostf Sprintf format a = mutate (\<lambda>b. b\<lparr>host := Sprintf format a\<rparr>)"
  "Pathf Sprintf format a = mutate (\<lambda>b. b\<lparr>path := Sprintf format a\<rparr>)"
  "ParamInt key val = mutate (\<lambda>b. b\<lparr>params := params b @ [(key, Itoa val)]\<rparr>)"
  by (intro ext, simp add: Hostf_def Pathf_def ParamInt_def Host_def Path_def Param_def)+

lemma header_mutate:
  "Accept v = mutate (\<lambda>b. b\<lparr>headers := set_header ''Accept'' v (headers b)\<rparr>)"
  "CacheControl v = mutate (\<lambda>b. b\<lparr>headers := set_header ''Cache-Control'' v (headers b)\<rparr>)"
  "ContentType v = mutate (\<lambda>b. b\<lparr>headers := set_header ''Content-Type'' v (headers b)\<rparr>)"
  "UserAgent v = mutate (\<lambda>b. b\<lparr>headers := set_header ''User-Agent'' v (headers b)\<rparr>)"
  "BasicAuth u p = mutate (\<lambda>b. b\<lparr>headers :=
     set_header ''Authorization'' (''Basic '' @ EncodeToString (u @ '':'' @ p)) (headers b)\<rparr>)"
  "Bearer t = mutate (\<lambda>b. b\<lparr>headers :=
     set_header ''Authorization'' (''Bearer '' @ t) (headers b)\<rparr>)"
  by (intro ext, simp add: Accept_def CacheControl_def ContentType_def UserAgent_def
      BasicAuth_def Bearer_def Header_def Let_def)+

lemma body_mutate:
  "Builder_BodyReader r = mutate (\<lambda>b. b\<lparr>body := Some (BodyReader r)\<rparr>)"
  "Builder_BodyWriter f = mutate (\<lambda>b. b\<lparr>body := Some (BodyWriter f)\<rparr>)"
  "Builder_BodyBytes bs = mutate (\<lambda>b. b\<lparr>body := Some (BodyBytes bs)\<rparr>)"
  "Builder_BodyJSON v = mutate (\<lambda>b. b\<lparr>body := Some (BodyJSON v),
     headers := set_header ''Content-Type'' ''application/json'' (headers b)\<rparr>)"
  "Builder_BodyForm data = mutate (\<lambda>b. b\<lparr>body := Some (BodyForm data),
     headers := set_header ''Content-Type'' ''application/x-www-form-urlencoded'' (headers b)\<rparr>)"
  "Builder_BodyFile name = mutate (\<lambda>b. b\<lparr>body := Some (BodyFile name)\<rparr>)"
  by (intro ext, simp add: Builder_BodyReader_def Builder_BodyWriter_def Builder_BodyBytes_def
      Builder_BodyJSON_def Builder_BodyForm_def Builder_BodyFile_def Body_def
      header_mutate then_call_mutate)+

lemma validator_mutate:
  "Builder_CheckStatus codes = mutate (\<lambda>b. b\<lparr>validators := validators b @ [CheckStatus codes]\<rparr>)"
  "Builder_CheckContentType cts
     = mutate (\<lambda>b. b\<lparr>validators := validators b @ [CheckContentType cts]\<rparr>)"
  "Builder_CheckPeek n f = mutate (\<lambda>b. b\<lparr>validators := validators b @ [CheckPeek n f]\<rparr>)"
  by (intro ext, simp add: Builder_CheckStatus_def Builder_CheckContentType_def
      Builder_CheckPeek_def AddValidator_def)+

lemma handler_mutate:
  "Builder_ToJSON v = mutate (\<lambda>b. b\<lparr>handlers := handlers b @ [ToJSON v]\<rparr>)"
  "Builder_ToString sp = mutate (\<lambda>b. b\<lparr>handlers := handlers b @ [ToString sp]\<rparr>)"
  "Builder_ToBytesBuffer buf = mutate (\<lambda>b. b\<lparr>handlers := handlers b @ [ToBytesBuffer buf]\<rparr>)"
  "Builder_ToWriter w = mutate (\<lambda>b. b\<lparr>handlers := handlers b @ [ToWriter w]\<rparr>)"
  "Builder_ToFile name = mutate (\<lambda>b. b\<lparr>handlers := handlers b @ [ToFile name]\<rparr>)"
  "Builder_ToHeaders h = mutate (\<lambda>b. b\<lparr>method := ''HEAD'',
     handlers := handlers b @ [ChainHandlers [ToHeaders h, consumeBody]]\<rparr>)"
  by (intro ext, simp add: Builder_ToJSON_def Builder_ToString_def Builder_ToBytesBuffer_def
      Builder_ToWriter_def Builder_ToFile_def Builder_ToHeaders_def Handle_def
      verb_mutate then_call_mutate)+

lemma invoke_mutate:
  "invoke Sprintf c = mutate (fold apply_update (documented Sprintf c))"
  by (cases c; intro ext;
      simp add: verb_mutate format_mutate header_mutate body_mutate validator_mutate
        handler_mutate; simp add: mutate_def)

lemma chain_mutate:
  "rb < length s \<Longrightarrow>
   chain_calls Sprintf cs rb s
     = Some (rb, s[rb := fold apply_update (concat (map (documented Sprintf) cs)) (s ! rb)])"
proof (induction cs arbitrary: s)
  case Nil
  then show ?case by simp
next
  case (Cons c cs)
  let ?s = "s[rb := fold apply_update (documented Sprintf c) (s ! rb)]"
  have "chain_calls Sprintf (c # cs) rb s = chain_calls Sprintf cs rb ?s"
    using Cons.prems by (simp add: invoke_mutate mutate_in then_call_Some)
  also have "\<dots> = Some (rb, ?s[rb := fold apply_update (concat (map (documented Sprintf) cs)) (?s ! rb)])"
    using Cons.prems by (intro Cons.IH) simp
  finally show ?case using Cons.prems by simp
qed

lemma chain_nil_receiver:
  "\<not> rb < length s \<Longrightarrow> chain_calls Sprintf cs rb s = (if cs = [] then Some (rb, s) else None)"
  by (cases cs) (simp_all add: invoke_mutate mutate_out then_call_None)

lemma deref_chain:
  "rb < length s \<Longrightarrow>
   deref a (chain_calls Sprintf cs rb s)
     = (if a = rb then Some (fold apply_update (concat (map (documented Sprintf) cs)) (s ! rb))
        else deref a (Some (rb, s)))"
  by (simp add: chain_mutate deref_def)

lemma apply_update_single_field: "agree_except (field_of u) b (apply_update u b)"
  by (cases u) (simp_all add: agree_except_def)

subsection \<open>Base64\<close>

lemma alphabet_table:
  "list_all (\<lambda>v. sextet (encodeStd ! v) = v \<and> encodeStd ! v \<noteq> CHR ''='') [0..<64]"
  by code_simp

lemma sextet_encode: "sextet (encode v) = v mod 64"
proof -
  have "v mod 64 \<in> set [0..<64]" by simp
  with alphabet_table show ?thesis
    unfolding list_all_iff encode_def by blast
qed

lemma encode_not_pad: "encode v \<noteq> CHR ''=''"
proof -
  have "v mod 64 \<in> set [0..<64]" by simp
  with alphabet_table show ?thesis
    unfolding list_all_iff encode_def by blast
qed

lemma byte_less: "byte c < 256"
  by (simp add: byte_def)

lemma char_of_byte: "char_of (byte c) = c"
  by (simp add: byte_def)

lemma sextets_of_three:
  fixes x :: nat
  assumes "x < 16777216"
  shows "(x div 262144 mod 64) * 262144 + (x div 4096 mod 64) * 4096
          + (x div 64 mod 64) * 64 + x mod 64 = x"
proof -
  define q1 where "q1 = x div 64"
  define q2 where "q2 = q1 div 64"
  define q3 where "q3 = q2 div 64"
  have d2: "x div 4096 = q2"
    using div_mult2_eq [of x 64 64] by (simp add: q1_def q2_def)
  have d3: "x div 262144 = q3"
    using div_mult2_eq [of x 4096 64] d2 by (simp add: q3_def)
  have x1: "x = q1 * 64 + x mod 64" by (simp add: q1_def)
  have x2: "q1 = q2 * 64 + q1 mod 64" by (simp add: q2_def)
  have x3: "q2 = q3 * 64 + q2 mod 64" by (simp add: q3_def)
  have "q3 < 64" using assms d3 by simp
  then have m3: "q3 mod 64 = q3" by simp
  have "q3 * 262144 + (q2 mod 64) * 4096 + (q1 mod 64) * 64 + x mod 64 = x"
    using x1 x2 x3 by linarith
  then show ?thesis by (simp add: d2 d3 m3 q1_def [symmetric])
qed

lemma bytes_of_three:
  fixes a b c :: nat
  assumes "a < 256" "b < 256" "c < 256"
  shows "a * 65536 + b * 256 + c < 16777216"
    and "(a * 65536 + b * 256 + c) div 65536 = a"
    and "(a * 65536 + b * 256 + c) div 256 mod 256 = b"
    and "(a * 65536 + b * 256 + c) mod 256 = c"
proof -
  define n where "n = a * 65536 + b * 256 + c"
  have e: "n = (a * 256 + b) * 256 + c" by (simp add: n_def)
  have m: "n mod 256 = c"
    using mod_mult_self3 [of "a * 256 + b" 256 c] assms(3) by (simp only: e mod_less)
  have d: "n div 256 = a * 256 + b"
    using div_mult_self3 [of 256 "a * 256 + b" c] assms(3) by (simp only: e)
  have dm: "n div 256 mod 256 = b"
    using mod_mult_self3 [of a 256 b] assms(2) by (simp only: d mod_less)
  have dd: "n div 256 div 256 = a"
    using div_mult_self3 [of 256 a b] assms(2) by (simp only: d)
  have "n div 65536 = n div 256 div 256"
    using div_mult2_eq [of n 256 256] by simp
  with dd have d2: "n div 65536 = a" by simp
  show "a * 65536 + b * 256 + c < 16777216" using assms by linarith
  show "(a * 65536 + b * 256 + c) div 65536 = a" using d2 by (simp only: n_def)
  show "(a * 65536 + b * 256 + c) div 256 mod 256 = b" using dm by (simp only: n_def)
  show "(a * 65536 + b * 256 + c) mod 256 = c" using m by (simp only: n_def)
qed

text \<open>The value of the characters of one encoded block is the 24-bit value encoded.\<close>

lemma block_value:
  fixes a b c :: char
  defines "val \<equiv> byte a * 65536 + byte b * 256 + byte c"
  shows "sextet (encode (val div 262144)) * 262144 + sextet (encode (val div 4096)) * 4096
           + sextet (encode (val div 64)) * 64 + sextet (encode val) = val"
    and "char_of (val div 65536) = a"
    and "char_of (val div 256) = b"
    and "char_of val = c"
proof -
  note b3 = bytes_of_three [OF byte_less [of a] byte_less [of b] byte_less [of c],
      folded val_def]
  show "sextet (encode (val div 262144)) * 262144 + sextet (encode (val div 4096)) * 4096
           + sextet (encode (val div 64)) * 64 + sextet (encode val) = val"
    using sextets_of_three [OF b3(1)] by (simp only: sextet_encode)
  show "char_of (val div 65536) = a" by (simp only: b3(2) char_of_byte)
  have "char_of (val div 256) = (char_of (val div 256 mod 256) :: char)" by simp
  then show "char_of (val div 256) = b" by (simp only: b3(3) char_of_byte)
  have "char_of val = (char_of (val mod 256) :: char)" by simp
  then show "char_of val = c" by (simp only: b3(4) char_of_byte)
qed

lemma block_value_two:
  fixes a b :: char
  defines "val \<equiv> byte a * 65536 + byte b * 256"
  shows "sextet (encode (val div 262144)) * 262144 + sextet (encode (val div 4096)) * 4096
           + sextet (encode (val div 64)) * 64 = val"
    and "char_of (val div 65536) = a"
    and "char_of (val div 256) = b"
proof -
  have z: "byte (CHR 0x00) = 0" by (simp add: byte_def)
  note bv = block_value [of a b "CHR 0x00", unfolded z add_0_right, folded val_def]
  have "val = (byte a * 1024 + byte b * 4) * 64" by (simp add: val_def)
  then have "val mod 64 = 0" by (simp only: mod_mult_self2_is_0)
  then have "sextet (encode val) = 0" by (simp only: sextet_encode)
  with bv(1) show "sextet (encode (val div 262144)) * 262144
      + sextet (encode (val div 4096)) * 4096 + sextet (encode (val div 64)) * 64 = val"
    by (simp only: add_0_right)
  show "char_of (val div 65536) = a" by (rule bv(2))
  show "char_of (val div 256) = b" by (rule bv(3))
qed

lemma block_value_one:
  fixes a :: char
  defines "val \<equiv> byte a * 65536"
  shows "(sextet (encode (val div 262144)) * 262144 + sextet (encode (val div 4096)) * 4096)
           div 65536 = byte a"
proof -
  have z: "byte (CHR 0x00) = 0" by (simp add: byte_def)
  note bv = block_value_two [of a "CHR 0x00", unfolded z mult_zero_left add_0_right, folded val_def]
  have "val div 64 = (byte a * 16) * 64" by (simp add: val_def)
  then have "val div 64 mod 64 = 0" by (simp only: mod_mult_self2_is_0)
  then have "sextet (encode (val div 64)) = 0" by (simp only: sextet_encode)
  with bv(1) have "sextet (encode (val div 262144)) * 262144
      + sextet (encode (val div 4096)) * 4096 = val"
    by (simp only: mult_zero_left add_0_right)
  then show ?thesis by (simp add: val_def)
qed

lemma base64_bytes_EncodeToString: "base64_bytes (EncodeToString src) = src"
proof (induction src rule: EncodeToString.induct)
  case (1 a b c src)
  note bv = block_value [of a b c]
  show ?case
    by (simp only: EncodeToString.simps Let_def append_Cons append_Nil base64_bytes.simps
        encode_not_pad if_False bv 1)
next
  case (2 a b)
  note bv = block_value_two [of a b]
  show ?case
    by (simp only: EncodeToString.simps Let_def base64_bytes.simps encode_not_pad if_False
        if_True simp_thms bv)
next
  case (3 a)
  show ?case
    by (simp only: EncodeToString.simps Let_def base64_bytes.simps if_True simp_thms
        block_value_one char_of_byte)
next
  case 4
  show ?case by simp
qed

section \<open>The claims\<close>

text \<open>
  Claim C1. For every chain of calls of the derived setters on a descriptor, the chain
  returns the receiver's own reference and leaves a store that differs from the one it
  started in only in the receiver's cell: no cell is added, and any other reference to
  the same cell sees the result. The descriptor it leaves there is the one obtained by
  applying the documented single-field mutations of the calls, call after call, to the
  descriptor it started with; so does every single call. Each documented mutation
  changes one field and no other.
\<close>

theorem chained_setters_mutate_in_place:
  "rb < length s \<Longrightarrow>
     chain_calls Sprintf cs rb s
       = Some (rb, s[rb := fold apply_update (concat (map (documented Sprintf) cs)) (s ! rb)])
     \<and> invoke Sprintf c rb s
       = Some (rb, s[rb := fold apply_update (documented Sprintf c) (s ! rb)])
     \<and> deref a (chain_calls Sprintf cs rb s)
       = (if a = rb
          then Some (fold apply_update (concat (map (documented Sprintf) cs)) (s ! rb))
          else deref a (Some (rb, s)))
     \<and> agree_except (field_of u) b (apply_update u b)"
  by (simp add: chain_mutate deref_def invoke_mutate mutate_in apply_update_single_field)

theorem chained_setters_mutate_in_place_witness:
  "chain_calls (\<lambda>format a. format)
     [Call_Put, Call_Hostf ''api.example.com'' ([]::string list), Call_ContentType ''text/plain'',
      Call_BodyJSON 1, Call_CheckStatus [200], Call_ToJSON 2]
     1 [Builder_zero, Builder_zero]
   = Some (1, [Builder_zero,
        \<lparr>method = ''PUT'', host = ''api.example.com'', path = [], params = [],
         headers = [(''Content-Type'', ''application/json'')], body = Some (BodyJSON 1),
         validators = [CheckStatus [200]], handlers = [ToJSON 2]\<rparr>])
   \<and> deref 0 (chain_calls (\<lambda>format a. format) [Call_Put, Call_ToString 3] 1
        [Builder_zero, Builder_zero]) = Some Builder_zero
   \<and> deref 1 (chain_calls (\<lambda>format a. format) [Call_Put, Call_ToString 3] 1
        [Builder_zero, Builder_zero])
     = Some (Builder_zero\<lparr>method := ''PUT'', handlers := [ToString 3]\<rparr>)"
proof -
  have h: "(1::nat) < length [Builder_zero, Builder_zero]" by simp
  have e1: "set_header ''Content-Type'' ''text/plain'' [] = [(''Content-Type'', ''text/plain'')]"
    by code_simp
  have e2: "set_header ''Content-Type'' ''application/json'' [(''Content-Type'', ''text/plain'')]
      = [(''Content-Type'', ''application/json'')]"
    by code_simp
  note t = chained_setters_mutate_in_place [OF h, of "\<lambda>format a. format"]
  show ?thesis
  proof (intro conjI)
    show "chain_calls (\<lambda>format a. format)
       [Call_Put, Call_Hostf ''api.example.com'' ([]::string list),
        Call_ContentType ''text/plain'', Call_BodyJSON 1, Call_CheckStatus [200], Call_ToJSON 2]
       1 [Builder_zero, Builder_zero]
     = Some (1, [Builder_zero,
        \<lparr>method = ''PUT'', host = ''api.example.com'', path = [], params = [],
         headers = [(''Content-Type'', ''application/json'')], body = Some (BodyJSON 1),
         validators = [CheckStatus [200]], handlers = [ToJSON 2]\<rparr>])"
      using t [THEN conjunct1, of
        "[Call_Put, Call_Hostf ''api.example.com'' ([]::string list),
          Call_ContentType ''text/plain'', Call_BodyJSON 1, Call_CheckStatus [200],
          Call_ToJSON 2]"]
      by (simp add: e1 e2 Builder_zero_def)
    show "deref 0 (chain_calls (\<lambda>format a. format) [Call_Put, Call_ToString 3] 1
        [Builder_zero, Builder_zero]) = Some Builder_zero"
      using t [THEN conjunct2, THEN conjunct2, THEN conjunct1, of 0
        "[Call_Put, Call_ToString 3]"]
      by (simp add: deref_def)
    show "deref 1 (chain_calls (\<lambda>format a. format) [Call_Put, Call_ToString 3] 1
        [Builder_zero, Builder_zero])
      = Some (Builder_zero\<lparr>method := ''PUT'', handlers := [ToString 3]\<rparr>)"
      using t [THEN conjunct2, THEN conjunct2, THEN conjunct1, of 1
        "[Call_Put, Call_ToString 3]"]
      by (simp add: Builder_zero_def)
  qed
qed

text \<open>
  Claim C2. \<open>BodyJSON\<close> sets the body producer to the JSON producer of the value and
  sets Content-Type to \<^verbatim>\<open>application/json\<close>, whatever Content-Type was set before;
  \<open>BodyForm\<close> sets the form producer and sets Content-Type to
  \<^verbatim>\<open>application/x-www-form-urlencoded\<close>.
\<close>

theorem body_json_and_form:
  "rb < length s \<Longrightarrow>
     Builder_BodyJSON v rb s
       = Some (rb, s[rb := (s ! rb)\<lparr>body := Some (BodyJSON v),
            headers := set_header ''Content-Type'' ''application/json'' (headers (s ! rb))\<rparr>])
     \<and> header_in_effect (Builder_BodyJSON v rb s) ''Content-Type'' = Some [''application/json'']
     \<and> Builder_BodyForm data rb s
       = Some (rb, s[rb := (s ! rb)\<lparr>body := Some (BodyForm data),
            headers := set_header ''Content-Type'' ''application/x-www-form-urlencoded''
              (headers (s ! rb))\<rparr>])
     \<and> header_in_effect (Builder_BodyForm data rb s) ''Content-Type''
       = Some [''application/x-www-form-urlencoded'']"
  by (simp add: body_mutate header_in_effect_mutate set_header_overwrites
      single_value_Content_Type EqualFold_refl)
     (simp add: mutate_in)

theorem body_json_and_form_witness:
  "Builder_BodyJSON 7 0 [Builder_zero\<lparr>headers := [(''content-type'', ''text/plain'')]\<rparr>]
     = Some (0, [Builder_zero\<lparr>headers := [(''Content-Type'', ''application/json'')],
                   body := Some (BodyJSON 7)\<rparr>])
   \<and> header_in_effect
        (Builder_BodyForm [(''a'', [''1''])] 0
           [Builder_zero\<lparr>headers := [(''content-type'', ''text/plain'')]\<rparr>])
        ''Content-Type'' = Some [''application/x-www-form-urlencoded'']"
proof -
  have h: "(0::nat) < length [Builder_zero\<lparr>headers := [(''content-type'', ''text/plain'')]\<rparr>]"
    by simp
  note t = body_json_and_form [OF h, of 7 "[(''a'', [''1''])]"]
  have e: "set_header ''Content-Type'' ''application/json'' [(''content-type'', ''text/plain'')]
      = [(''Content-Type'', ''application/json'')]"
    by code_simp
  show ?thesis
  proof (intro conjI)
    show "Builder_BodyJSON 7 0 [Builder_zero\<lparr>headers := [(''content-type'', ''text/plain'')]\<rparr>]
       = Some (0, [Builder_zero\<lparr>headers := [(''Content-Type'', ''application/json'')],
                   body := Some (BodyJSON 7)\<rparr>])"
      using t [THEN conjunct1] by (simp add: e Builder_zero_def)
    show "header_in_effect
        (Builder_BodyForm [(''a'', [''1''])] 0
           [Builder_zero\<lparr>headers := [(''content-type'', ''text/plain'')]\<rparr>])
        ''Content-Type'' = Some [''application/x-www-form-urlencoded'']"
      using t [THEN conjunct2, THEN conjunct2, THEN conjunct2] by simp
  qed
qed

text \<open>
  Claim C3. Calling a header-overwrite convenience setter twice leaves only the last
  value in effect: for \<open>ContentType\<close> on Content-Type, and for \<open>BasicAuth\<close> and \<open>Bearer\<close>
  (in any combination) on Authorization.
\<close>

theorem overwrite_setters_last_wins:
  "rb < length s \<Longrightarrow>
     header_in_effect (then_call (ContentType v1 rb s) (ContentType v2)) ''Content-Type''
       = Some [v2]
     \<and> header_in_effect (then_call (BasicAuth u1 p1 rb s) (BasicAuth u2 p2)) ''Authorization''
       = Some [''Basic '' @ EncodeToString (u2 @ '':'' @ p2)]
     \<and> header_in_effect (then_call (Bearer t1 rb s) (Bearer t2)) ''Authorization''
       = Some [''Bearer '' @ t2]
     \<and> header_in_effect (then_call (BasicAuth u1 p1 rb s) (Bearer t2)) ''Authorization''
       = Some [''Bearer '' @ t2]
     \<and> header_in_effect (then_call (Bearer t1 rb s) (BasicAuth u2 p2)) ''Authorization''
       = Some [''Basic '' @ EncodeToString (u2 @ '':'' @ p2)]"
  by (simp add: header_mutate then_call_mutate header_in_effect_mutate set_header_overwrites
      single_value_Content_Type single_value_Authorization EqualFold_refl)

theorem overwrite_setters_last_wins_witness:
  "header_in_effect
     (then_call (ContentType ''text/plain'' 0 [Builder_zero]) (ContentType ''text/html''))
     ''Content-Type'' = Some [''text/html'']
   \<and> header_in_effect
     (then_call (BasicAuth ''u'' ''p'' 0 [Builder_zero]) (Bearer ''tok''))
     ''Authorization'' = Some [''Bearer tok'']"
proof -
  have h: "(0::nat) < length [Builder_zero]" by simp
  note t = overwrite_setters_last_wins [OF h, of "''text/plain''" "''text/html''"
      "''u''" "''p''" "''u''" "''p''" "''tok''" "''tok''"]
  show ?thesis
  proof (intro conjI)
    show "header_in_effect
       (then_call (ContentType ''text/plain'' 0 [Builder_zero]) (ContentType ''text/html''))
       ''Content-Type'' = Some [''text/html'']"
      using t [THEN conjunct1] by simp
    show "header_in_effect
       (then_call (BasicAuth ''u'' ''p'' 0 [Builder_zero]) (Bearer ''tok''))
       ''Authorization'' = Some [''Bearer tok'']"
      using t [THEN conjunct2, THEN conjunct2, THEN conjunct2, THEN conjunct1] by simp
  qed
qed

text \<open>
  Claim C4. Each header convenience setter is the generic \<open>Header\<close> setter called with
  the setter's header name and its computed value. \<open>BasicAuth\<close> sets Authorization to
  \<^verbatim>\<open>Basic\<close>, a space and the standard base64 encoding of the user name, a colon and the
  password, a text that stands for exactly these bytes; \<open>Bearer\<close> sets Authorization to
  \<^verbatim>\<open>Bearer\<close>, a space and the token.
\<close>

theorem header_convenience_setters:
  "Accept v rb s = Header ''Accept'' v rb s
   \<and> CacheControl v rb s = Header ''Cache-Control'' v rb s
   \<and> ContentType v rb s = Header ''Content-Type'' v rb s
   \<and> UserAgent v rb s = Header ''User-Agent'' v rb s
   \<and> BasicAuth u p rb s
       = Header ''Authorization'' (''Basic '' @ EncodeToString (u @ '':'' @ p)) rb s
   \<and> base64_bytes (EncodeToString (u @ '':'' @ p)) = u @ '':'' @ p
   \<and> Bearer t rb s = Header ''Authorization'' (''Bearer '' @ t) rb s"
  by (simp add: Accept_def CacheControl_def ContentType_def UserAgent_def BasicAuth_def
      Bearer_def Let_def base64_bytes_EncodeToString)

theorem header_convenience_setters_witness:
  "BasicAuth ''u'' ''p'' 0 [Builder_zero] = Header ''Authorization'' ''Basic dTpw'' 0 [Builder_zero]
   \<and> base64_bytes ''dTpw'' = ''u:p''"
proof -
  have e: "EncodeToString ''u:p'' = ''dTpw''"
    by (simp add: byte_def encode_def encodeStd_def)
  note t = header_convenience_setters [of "''x''" 0 "[Builder_zero]" "''u''" "''p''" "''tok''"]
  show ?thesis
  proof (intro conjI)
    show "BasicAuth ''u'' ''p'' 0 [Builder_zero]
        = Header ''Authorization'' ''Basic dTpw'' 0 [Builder_zero]"
      using t [THEN conjunct2, THEN conjunct2, THEN conjunct2, THEN conjunct2, THEN conjunct1]
      by (simp add: byte_def encode_def encodeStd_def)
    show "base64_bytes ''dTpw'' = ''u:p''"
      using t [THEN conjunct2, THEN conjunct2, THEN conjunct2, THEN conjunct2, THEN conjunct2,
          THEN conjunct1] e
      by (simp del: EncodeToString.simps base64_bytes.simps)
  qed
qed

text \<open>
  Claim C5. \<open>ToHeaders\<close> sets the method of the descriptor to \<^verbatim>\<open>HEAD\<close> and appends
  exactly one handler to its handlers: the composition whose outer stage is the header
  capture into the given mapping and whose inner stage is the body drain. On a \<^verbatim>\<open>nil\<close>
  receiver it panics.
\<close>

theorem ToHeaders_sets_HEAD_and_appends_handler:
  "Builder_ToHeaders h rb s =
     (if rb < length s
      then Some (rb, s[rb := (s ! rb)\<lparr>method := ''HEAD'',
             handlers := handlers (s ! rb) @ [ChainHandlers [ToHeaders h, consumeBody]]\<rparr>])
      else None)"
  by (simp add: handler_mutate mutate_def)

theorem ToHeaders_sets_HEAD_and_appends_handler_witness:
  "Builder_ToHeaders 5 0 [Builder_zero\<lparr>method := ''PUT'', handlers := [ToString 3]\<rparr>]
     = Some (0, [Builder_zero\<lparr>method := ''HEAD'',
          handlers := [ToString 3, ChainHandlers [ToHeaders 5, consumeBody]]\<rparr>])"
  using ToHeaders_sets_HEAD_and_appends_handler
      [of 5 0 "[Builder_zero\<lparr>method := ''PUT'', handlers := [ToString 3]\<rparr>]"]
  by (simp add: Builder_zero_def)

text \<open>
  Claim C6. \<open>Configure\<close> of a sequence of Configuration Functions returns what
  constructing a zero-valued descriptor and calling \<open>Config\<close> with the sequence on it
  returns, and the descriptor it returns is the new one. \<open>Config\<close> applies the functions
  in order on the same descriptor: a sequence split in two is the first part, then the
  second part on the store the first part left.
\<close>

theorem Configure_is_construct_then_Config:
  "Configure cfgs s = Config cfgs (length s) (s @ [Builder_zero])
   \<and> Config [] rb s = Some (rb, s)
   \<and> Config [cfg] rb s = map_option (Pair rb) (cfg rb s)
   \<and> Config (cs @ ds) rb s = then_call (Config cs rb s) (Config ds)
   \<and> (Configure cfgs s = Some (r, s') \<longrightarrow> r = length s)"
  using Config_returns_receiver [of cfgs "length s" "s @ [Builder_zero]" r s']
  by (auto simp: Configure_def new_Builder_def Config_append split: option.splits)

theorem Configure_is_construct_then_Config_witness:
  "Configure [\<lambda>rb s. map_option snd (Host ''a.example'' rb s),
              \<lambda>rb s. map_option snd (Path (host (s ! rb)) rb s)] []
     = Some (0, [Builder_zero\<lparr>host := ''a.example'', path := ''a.example''\<rparr>])"
  using Configure_is_construct_then_Config
    [THEN conjunct1, of "[\<lambda>rb s. map_option snd (Host ''a.example'' rb s),
          \<lambda>rb s. map_option snd (Path (host (s ! rb)) rb s)]" "[]"]
  by (simp add: Host_def Path_def mutate_def Builder_zero_def)

text \<open>
  Claim C7. Each verb shortcut \<open>Head\<close>, \<open>Put\<close>, \<open>Patch\<close>, \<open>Delete\<close> is the primitive
  \<open>Method\<close> setter called with the constant \<^verbatim>\<open>HEAD\<close>, \<^verbatim>\<open>PUT\<close>, \<^verbatim>\<open>PATCH\<close>, \<^verbatim>\<open>DELETE\<close>,
  and has no other effect: the outcome of the shortcut, the returned reference and the
  store, is the outcome of that call, which writes the method field of the receiver.
\<close>

theorem verb_shortcuts:
  "Head rb s = Method ''HEAD'' rb s
   \<and> Put rb s = Method ''PUT'' rb s
   \<and> Patch rb s = Method ''PATCH'' rb s
   \<and> Delete rb s = Method ''DELETE'' rb s
   \<and> Method m rb s
       = (if rb < length s then Some (rb, s[rb := (s ! rb)\<lparr>method := m\<rparr>]) else None)"
  by (simp add: Head_def Put_def Patch_def Delete_def MethodHead_def MethodPut_def
      MethodPatch_def MethodDelete_def Method_def mutate_def)

theorem verb_shortcuts_witness:
  "Head 0 [Builder_zero] = Some (0, [Builder_zero\<lparr>method := ''HEAD''\<rparr>])
   \<and> Delete 0 [Builder_zero] = Some (0, [Builder_zero\<lparr>method := ''DELETE''\<rparr>])"
proof (intro conjI)
  show "Head 0 [Builder_zero] = Some (0, [Builder_zero\<lparr>method := ''HEAD''\<rparr>])"
    using verb_shortcuts [of 0 "[Builder_zero]" "''HEAD''"] by simp
  show "Delete 0 [Builder_zero] = Some (0, [Builder_zero\<lparr>method := ''DELETE''\<rparr>])"
    using verb_shortcuts [of 0 "[Builder_zero]" "''DELETE''"] by simp
qed

text \<open>
  Claim C8. \<open>Hostf\<close> is \<open>Host\<close> of the formatted string and \<open>Pathf\<close> is \<open>Path\<close> of the
  formatted string, for every formatting function; \<open>ParamInt\<close> is \<open>Param\<close> of the key and
  the decimal string of the integer: the string \<open>Itoa\<close> yields is a canonical decimal
  numeral whose value is the integer.
\<close>

theorem formatted_and_integer_setters:
  "Hostf Sprintf format a rb s = Host (Sprintf format a) rb s
   \<and> Pathf Sprintf format a rb s = Path (Sprintf format a) rb s
   \<and> ParamInt key val rb s = Param key (Itoa val) rb s
   \<and> canonical_decimal (Itoa val)
   \<and> decimal_value (Itoa val) = val"
  by (simp add: Hostf_def Pathf_def ParamInt_def canonical_decimal_Itoa decimal_value_Itoa)

theorem formatted_and_integer_setters_witness:
  "ParamInt ''page'' (-12) 0 [Builder_zero]
     = Some (0, [Builder_zero\<lparr>params := [(''page'', ''-12'')]\<rparr>])
   \<and> decimal_value ''-12'' = -12
   \<and> Hostf (\<lambda>format a. format) ''example.com'' ([]::string list) 0 [Builder_zero]
     = Some (0, [Builder_zero\<lparr>host := ''example.com''\<rparr>])"
proof -
  have i: "Itoa (-12) = ''-12''"
    by (simp add: Itoa_def formatBits.simps digits_def)
  note t = formatted_and_integer_setters
      [of "\<lambda>format a. format" "''example.com''" "[]::string list" 0 "[Builder_zero]"
          "''page''" "-12"]
  show ?thesis
  proof (intro conjI)
    show "ParamInt ''page'' (-12) 0 [Builder_zero]
        = Some (0, [Builder_zero\<lparr>params := [(''page'', ''-12'')]\<rparr>])"
      using t [THEN conjunct2, THEN conjunct2, THEN conjunct1]
      by (simp add: i Param_def mutate_def Builder_zero_def)
    show "decimal_value ''-12'' = -12"
      using t [THEN conjunct2, THEN conjunct2, THEN conjunct2, THEN conjunct2]
      by (simp add: i)
    show "Hostf (\<lambda>format a. format) ''example.com'' ([]::string list) 0 [Builder_zero]
        = Some (0, [Builder_zero\<lparr>host := ''example.com''\<rparr>])"
      using t [THEN conjunct1] by (simp add: Host_def mutate_def)
  qed
qed

text \<open>
  Claim C9. For every comparable type and all values \<open>a\<close>, \<open>b\<close> of it, \<open>First\<close> returns
  the first of the two that is not the zero value: it returns \<open>a\<close> whenever \<open>a\<close> is not
  equal to the zero value, and \<open>b\<close> otherwise. Not equal is the type's own \<^verbatim>\<open>!=\<close>, so
  the statement is for every comparison and every zero value.
\<close>

theorem First_returns_first_non_zero:
  "(ne a zero \<longrightarrow> First ne zero a b = a) \<and> (\<not> ne a zero \<longrightarrow> First ne zero a b = b)"
  by (simp add: First_def Cond_def)

theorem First_returns_first_non_zero_witness:
  "First identity_ne (0::int) 7 9 = 7
   \<and> First identity_ne (0::int) 0 9 = 9
   \<and> First identity_ne '''' ''a'' ''b'' = ''a''
   \<and> First float64_ne 0 0x4014000000000000 0x8000000000000000 = 0x4014000000000000
   \<and> First float64_ne 0 0x8000000000000000 0x4014000000000000 = 0x4014000000000000"
proof (intro conjI)
  show "First identity_ne (0::int) 7 9 = 7"
    using First_returns_first_non_zero [of identity_ne "7::int" 0 9]
    by (simp add: identity_ne_def)
  show "First identity_ne (0::int) 0 9 = 9"
    using First_returns_first_non_zero [of identity_ne "0::int" 0 9]
    by (simp add: identity_ne_def)
  show "First identity_ne '''' ''a'' ''b'' = ''a''"
    using First_returns_first_non_zero [of identity_ne "''a''" "''''" "''b''"]
    by (simp add: identity_ne_def)
  show "First float64_ne 0 0x4014000000000000 0x8000000000000000 = 0x4014000000000000"
    using First_returns_first_non_zero
      [of float64_ne "0x4014000000000000" 0 "0x8000000000000000"]
    by (simp add: float64_ne_def isNaN_def isZero_def)
  show "First float64_ne 0 0x8000000000000000 0x4014000000000000 = 0x4014000000000000"
    using First_returns_first_non_zero
      [of float64_ne "0x8000000000000000" 0 "0x4014000000000000"]
    by (simp add: float64_ne_def isNaN_def isZero_def)
qed

text \<open>
  Claim C10, as stated: \<open>First\<close> is a monoid at every comparable type, with the zero
  value as a two-sided identity. At \<^verbatim>\<open>float64\<close> the zero value is not a right identity:
  the negative zero is equal to the zero value by \<^verbatim>\<open>!=\<close>, so \<open>First\<close> of the negative
  zero and the zero value is the positive zero, another value. Nor is it one up to the
  type's equality: \<open>First\<close> of a NaN and the zero value is the NaN, which \<^verbatim>\<open>!=\<close> tells
  from itself.
\<close>

theorem First_right_identity_counterexample:
  "First float64_ne 0 0x8000000000000000 0 \<noteq> 0x8000000000000000
   \<and> First float64_ne 0 0x8000000000000000 0 = 0
   \<and> \<not> float64_ne 0x8000000000000000 0
   \<and> float64_ne (First float64_ne 0 0x7FF8000000000001 0) 0x7FF8000000000001"
  by (simp add: First_def Cond_def float64_ne_def isNaN_def isZero_def)

text \<open>
  Claim C10, amended. For every comparable type, \<open>First\<close> is associative; the zero
  value, which is equal to itself at every type, is a left identity; \<open>First\<close> of two zero
  values is the zero value; and \<open>First\<close> of \<open>a\<close> and the zero value is \<open>a\<close> when \<open>a\<close> is not
  equal to the zero value and the zero value otherwise. So the zero value is a right
  identity at every \<open>a\<close> that is the zero value or not equal to it, which is every \<open>a\<close> at
  the types whose equality is identity of values.
\<close>

theorem First_associative_with_identities:
  "First ne zero (First ne zero a b) c = First ne zero a (First ne zero b c)
   \<and> (\<not> ne zero zero \<longrightarrow> First ne zero zero b = b)
   \<and> First ne zero zero zero = zero
   \<and> First ne zero a zero = (if ne a zero then a else zero)
   \<and> (ne a zero \<or> a = zero \<longrightarrow> First ne zero a zero = a)"
  by (auto simp: First_def Cond_def)

theorem First_associative_with_identities_witness:
  "First float64_ne 0 (First float64_ne 0 0x8000000000000000 0x4014000000000000)
       0x7FF8000000000001
     = First float64_ne 0 0x8000000000000000
         (First float64_ne 0 0x4014000000000000 0x7FF8000000000001)
   \<and> First float64_ne 0 0 0x4014000000000000 = 0x4014000000000000
   \<and> First float64_ne 0 0x4014000000000000 0 = 0x4014000000000000
   \<and> First identity_ne (0::int) 0 5 = 5
   \<and> First identity_ne (0::int) 5 0 = 5"
proof (intro conjI)
  show "First float64_ne 0 (First float64_ne 0 0x8000000000000000 0x4014000000000000)
       0x7FF8000000000001
     = First float64_ne 0 0x8000000000000000
         (First float64_ne 0 0x4014000000000000 0x7FF8000000000001)"
    using First_associative_with_identities
      [of float64_ne 0 "0x8000000000000000" "0x4014000000000000" "0x7FF8000000000001"]
    by blast
  have z: "\<not> float64_ne 0 0"
    by (simp add: float64_ne_def isNaN_def isZero_def)
  show "First float64_ne 0 0 0x4014000000000000 = 0x4014000000000000"
    using First_associative_with_identities
      [of float64_ne 0 0 "0x4014000000000000" 0] z
    by blast
  have n: "float64_ne 0x4014000000000000 0"
    by (simp add: float64_ne_def isNaN_def isZero_def)
  show "First float64_ne 0 0x4014000000000000 0 = 0x4014000000000000"
    using First_associative_with_identities
      [of float64_ne 0 "0x4014000000000000" 0 0] n
    by blast
  show "First identity_ne (0::int) 0 5 = 5"
    using First_associative_with_identities [of identity_ne "0::int" 0 5 0]
    by (simp add: identity_ne_def)
  show "First identity_ne (0::int) 5 0 = 5"
    using First_associative_with_identities [of identity_ne "0::int" 5 0 0]
    by (simp add: identity_ne_def)
qed

end
